theory Spec2Isabelle
  imports Main "HOL-Library.Sublist"
begin

section \<open>Stages, encodings and paths\<close>

text \<open>
  Modelled from the spec: the \<open>Stage\<close> enumeration lives in \<open>guppy_runner/stage.py\<close>,
  which is not among the sources. The spec gives a closed, strictly ordered set of seven
  positions; the member names are the ones \<open>__main__.py\<close> and \<open>llvm_compiler.py\<close>
  use (\<open>Stage.GUPPY\<close> ... \<open>Stage.EXECUTABLE\<close>), in the order of the spec's list.
\<close>

datatype Stage = GUPPY | HUGR | HUGR_MLIR | LOWERED_MLIR | LLVM | OBJECT | EXECUTABLE

text \<open>
  Modelled from the spec: the ordinal of a stage ("a numeric-ordinal tagged enumeration
  type; comparisons are ordinal comparisons").
\<close>

fun stage_ordinal :: "Stage \<Rightarrow> nat" where
  "stage_ordinal GUPPY = 0"
| "stage_ordinal HUGR = 1"
| "stage_ordinal HUGR_MLIR = 2"
| "stage_ordinal LOWERED_MLIR = 3"
| "stage_ordinal LLVM = 4"
| "stage_ordinal OBJECT = 5"
| "stage_ordinal EXECUTABLE = 6"

text \<open>\<open>s1 >= s2\<close> on stages.\<close>

definition stage_ge :: "Stage \<Rightarrow> Stage \<Rightarrow> bool" where
  "stage_ge s1 s2 = (stage_ordinal s2 \<le> stage_ordinal s1)"

text \<open>\<open>stage.name\<close>: the member's name, as Python's enum gives it.\<close>

fun stage_name :: "Stage \<Rightarrow> string" where
  "stage_name GUPPY = ''GUPPY''"
| "stage_name HUGR = ''HUGR''"
| "stage_name HUGR_MLIR = ''HUGR_MLIR''"
| "stage_name LOWERED_MLIR = ''LOWERED_MLIR''"
| "stage_name LLVM = ''LLVM''"
| "stage_name OBJECT = ''OBJECT''"
| "stage_name EXECUTABLE = ''EXECUTABLE''"

datatype EncodingMode = TEXTUAL | BITCODE

text \<open>
  A \<open>pathlib.Path\<close> object on a POSIX system, kept as the text \<open>str()\<close> prints for it,
  which is also what \<open>subprocess.run\<close> receives for it.
\<close>

datatype Path = PosixPath (path_text: string)

text \<open>\<open>text.split("/")\<close>: \<open>cur\<close> holds the current piece, reversed.\<close>

fun split_sep :: "string \<Rightarrow> string \<Rightarrow> string list" where
  "split_sep cur [] = [rev cur]"
| "split_sep cur (c # cs) =
     (if c = CHR ''/'' then rev cur # split_sep [] cs else split_sep (c # cur) cs)"

text \<open>\<open>"/".join(parts)\<close>.\<close>

fun join_sep :: "string list \<Rightarrow> string" where
  "join_sep [] = []"
| "join_sep [x] = x"
| "join_sep (x # y # ys) = x @ ''/'' @ join_sep (y # ys)"

text \<open>
  \<open>posixpath.splitroot\<close> without the drive, which is always empty: the root (empty,
  one slash, or two slashes when the text starts with exactly two) and the rest.
\<close>

definition splitroot :: "string \<Rightarrow> string \<times> string" where
  "splitroot p =
     (if take 1 p \<noteq> ''/'' then ([], p)
      else if take 1 (drop 1 p) \<noteq> ''/'' \<or> take 1 (drop 2 p) = ''/'' then (''/'', drop 1 p)
      else (''//'', drop 2 p))"

text \<open>
  \<open>Path(text)\<close>, the constructor of pathlib: the text is split at the slashes, empty
  pieces and \<open>.\<close> pieces are dropped, and the path prints as the root followed by the
  pieces joined with slashes, or as \<open>.\<close> when nothing is left. So \<open>Path("./llc")\<close> is
  \<open>Path("llc")\<close> and \<open>Path("")\<close> is \<open>Path(".")\<close>.
\<close>

definition Path :: "string \<Rightarrow> Path" where
  "Path text1 =
     (let (root, rel) = splitroot text1;
          parts = filter (\<lambda>x. x \<noteq> [] \<and> x \<noteq> ''.'') (split_sep [] rel);
          printed = root @ join_sep parts
      in PosixPath (if printed = [] then ''.'' else printed))"

text \<open>
  Truth value of an \<open>output_path: Path | None\<close>. \<open>None\<close> is falsy; a Path object has
  neither \<open>__bool__\<close> nor \<open>__len__\<close>, so every Path is truthy, \<open>Path("")\<close> included.
\<close>

fun truthy :: "Path option \<Rightarrow> bool" where
  "truthy None = False"
| "truthy (Some p) = True"

section \<open>The world a compiler runs in\<close>

text \<open>One element of the command list handed to \<open>subprocess.run\<close>.\<close>

datatype cmd_arg = PathArg Path | StrArg string

text \<open>
  A captured stream: \<open>bytes\<close> when \<open>subprocess.run\<close> was called with \<open>text=False\<close>,
  \<open>str\<close> with \<open>text=True\<close>. A \<open>str\<close> is kept as its code points below 256.
\<close>

datatype captured = Bytes string | Text string

record CalledProcessError =
  returncode :: int
  stderr :: captured

text \<open>
  What \<open>subprocess.run(cmd, capture_output=True, check=True, text=...)\<close> does: it
  raises \<open>FileNotFoundError\<close> when the binary is not found, \<open>CalledProcessError\<close> when
  it exits with a non-zero status, some other exception (say \<open>PermissionError\<close>), or it
  returns.
\<close>

datatype run_outcome =
    RaiseFileNotFoundError
  | RaiseCalledProcessError CalledProcessError
  | RaiseOther string
  | Completed

text \<open>
  The process environment: \<open>os.environ\<close>, and the behaviour of \<open>subprocess.run\<close> on a
  command list and a \<open>text\<close> flag.
\<close>

record world =
  environ :: "string \<rightharpoonup> string"
  subprocess_run :: "cmd_arg list \<Rightarrow> bool \<Rightarrow> run_outcome"

section \<open>Errors\<close>

text \<open>
  The exception classes of \<open>llvm_compiler.py\<close>: \<open>LlcNotFoundError\<close> and \<open>LlcError\<close>
  derive from \<open>LlvmError\<close>, which derives from \<open>CompilerError\<close>. An exception is kept
  with the arguments it was built from.
\<close>

datatype LlvmError = LlcNotFoundError | LlcError CalledProcessError

text \<open>
  \<open>UnsupportedEncodingError\<close> is imported from \<open>guppy_runner.compile\<close> together with
  \<open>CompilerError\<close>; it is built from a stage and an encoding.
\<close>

datatype CompilerError =
    UnsupportedEncodingError Stage EncodingMode
  | LlvmError LlvmError

text \<open>What a call can raise: a \<open>CompilerError\<close>, or what \<open>subprocess.run\<close> let through.\<close>

datatype exn = CompilerError CompilerError | OtherException string

definition LLC :: string where
  "LLC = ''llc''"

definition LLC_ENV :: string where
  "LLC_ENV = ''LLC''"

definition DEFAULT_OBJ :: Path where
  "DEFAULT_OBJ = Path ''a.o''"

subsection \<open>Python's \<open>splitlines\<close> and \<open>str()\<close> of bytes\<close>

text \<open>
  \<open>bytes.splitlines()\<close> breaks at \<open>\n\<close>, \<open>\r\<close> and \<open>\r\n\<close>; \<open>str.splitlines()\<close> also at
  \<open>\v\<close>, \<open>\f\<close>, \<open>\x1c\<close>, \<open>\x1d\<close>, \<open>\x1e\<close> and \<open>\x85\<close> (and two code points above 255).
\<close>

definition bytes_linebreak :: "char \<Rightarrow> bool" where
  "bytes_linebreak c = (c = CHR 0x0A \<or> c = CHR 0x0D)"

definition str_linebreak :: "char \<Rightarrow> bool" where
  "str_linebreak c = (c \<in> set [CHR 0x0A, CHR 0x0D, CHR 0x0B, CHR 0x0C,
                                  CHR 0x1C, CHR 0x1D, CHR 0x1E, CHR 0x85])"

text \<open>
  The loop of \<open>splitlines\<close>: \<open>cur\<close> holds the current line, reversed. A break ends the
  line (\<open>\r\n\<close> counts as one break); the text after the last break is a line only when
  it is not empty.
\<close>

fun splitlines_from :: "(char \<Rightarrow> bool) \<Rightarrow> string \<Rightarrow> string \<Rightarrow> string list" where
  "splitlines_from br cur [] = (if cur = [] then [] else [rev cur])"
| "splitlines_from br cur (c # cs) =
     (if br c then
        (case cs of
           d # ds \<Rightarrow>
             (if c = CHR 0x0D \<and> d = CHR 0x0A then rev cur # splitlines_from br [] ds
              else rev cur # splitlines_from br [] cs)
         | [] \<Rightarrow> rev cur # splitlines_from br [] cs)
      else splitlines_from br (c # cur) cs)"

definition splitlines :: "captured \<Rightarrow> captured list" where
  "splitlines s =
     (case s of
        Bytes b \<Rightarrow> map Bytes (splitlines_from bytes_linebreak [] b)
      | Text t \<Rightarrow> map Text (splitlines_from str_linebreak [] t))"

definition hexdigits :: string where
  "hexdigits = ''0123456789abcdef''"

text \<open>One byte inside the \<open>repr\<close> of a bytes object, quoted with \<open>quote\<close>.\<close>

definition repr_byte :: "char \<Rightarrow> char \<Rightarrow> string" where
  "repr_byte quote c =
     (if c = quote \<or> c = CHR 0x5C then [CHR 0x5C, c]
      else if c = CHR 0x09 then [CHR 0x5C, CHR ''t'']
      else if c = CHR 0x0A then [CHR 0x5C, CHR ''n'']
      else if c = CHR 0x0D then [CHR 0x5C, CHR ''r'']
      else if (of_char c :: nat) < 0x20 \<or> 0x7F \<le> (of_char c :: nat) then
        [CHR 0x5C, CHR ''x'', hexdigits ! ((of_char c :: nat) div 16),
         hexdigits ! ((of_char c :: nat) mod 16)]
      else [c])"

text \<open>
  \<open>repr(b)\<close> for bytes \<open>b\<close>: single quotes, unless \<open>b\<close> holds a single quote and no
  double quote.
\<close>

definition bytes_repr :: "string \<Rightarrow> string" where
  "bytes_repr b =
     (let quote = (if CHR 0x27 \<in> set b \<and> CHR 0x22 \<notin> set b then CHR 0x22 else CHR 0x27)
      in [CHR ''b'', quote] @ concat (map (repr_byte quote) b) @ [quote])"

text \<open>
  What an f-string writes for \<open>{x}\<close>: a \<open>str\<close> as it is, a \<open>bytes\<close> object as its
  \<open>repr\<close> (\<open>format\<close> of bytes falls back to \<open>str()\<close>, which is the \<open>repr\<close>).
\<close>

fun format_value :: "captured \<Rightarrow> string" where
  "format_value (Text t) = t"
| "format_value (Bytes b) = bytes_repr b"

subsection \<open>The messages of the two errors\<close>

text \<open>\<open>LlcNotFoundError.__init__\<close>.\<close>

definition LlcNotFoundError_message :: string where
  "LlcNotFoundError_message = ''Could not find '' @ [CHR 0x27] @ LLC @ [CHR 0x27] @ '' binary in your $PATH.''"

text \<open>
  \<open>LlcError.__init__\<close>: \<open>next(iter(perror.stderr.splitlines()), "")\<close> is the first line,
  or the \<open>str\<close> \<open>""\<close> when there is none.
\<close>

definition err_line :: "CalledProcessError \<Rightarrow> captured" where
  "err_line perror =
     (case splitlines (stderr perror) of [] \<Rightarrow> Text [] | l # _ \<Rightarrow> l)"

definition LlcError_message :: "CalledProcessError \<Rightarrow> string" where
  "LlcError_message perror =
     ''An error occurred while calling '' @ [CHR 0x27] @ LLC @ [CHR 0x27] @ '':\<newline>''
       @ format_value (err_line perror)"

fun message :: "LlvmError \<Rightarrow> string" where
  "message LlcNotFoundError = LlcNotFoundError_message"
| "message (LlcError perror) = LlcError_message perror"

section \<open>\<open>LlvmCompiler\<close>\<close>

definition INPUT_STAGE :: Stage where
  "INPUT_STAGE = LLVM"

definition OUTPUT_STAGE :: Stage where
  "OUTPUT_STAGE = OBJECT"

text \<open>\<open>LlvmCompiler._get_compiler\<close>.\<close>

definition get_compiler :: "world \<Rightarrow> Path \<times> bool" where
  "get_compiler w =
     (case environ w LLC_ENV of
        Some v \<Rightarrow> (Path v, True)
      | None \<Rightarrow> (Path LLC, False))"

text \<open>What a call leaves behind: the log records and the calls of \<open>subprocess.run\<close>.\<close>

datatype effect =
    LogInfoExecuting "cmd_arg list"
  | SubprocessRun "cmd_arg list" bool

text \<open>The command list \<open>process_stage\<close> builds.\<close>

definition build_cmd :: "world \<Rightarrow> Path \<Rightarrow> Path option \<Rightarrow> cmd_arg list" where
  "build_cmd w input_path output_path =
     [PathArg (fst (get_compiler w)), PathArg input_path, StrArg ''--filetype=obj'']
     @ (case output_path of
          Some p \<Rightarrow> (if truthy output_path then [StrArg ''-o'', PathArg p] else [])
        | None \<Rightarrow> [])"

text \<open>
  \<open>LlvmCompiler.process_stage\<close>. The result is what the call raises (\<open>Inl\<close>) or returns
  (\<open>Inr\<close>), with the effects in the order they happen.
\<close>

definition process_stage ::
  "world \<Rightarrow> Path \<Rightarrow> EncodingMode \<Rightarrow> Path option \<Rightarrow> EncodingMode \<Rightarrow> bool \<Rightarrow> string option
     \<Rightarrow> (exn + Path option) \<times> effect list" where
  "process_stage w input_path input_encoding output_path output_encoding temp_file module_name =
     (if output_encoding = TEXTUAL then
        (Inl (CompilerError (UnsupportedEncodingError OUTPUT_STAGE output_encoding)), [])
      else
        let output_path1 = (if \<not> truthy output_path then Some DEFAULT_OBJ else output_path);
            output_as_text = (output_encoding = TEXTUAL);
            cmd = build_cmd w input_path output_path1;
            effects = [LogInfoExecuting cmd, SubprocessRun cmd output_as_text]
        in (case subprocess_run w cmd output_as_text of
              RaiseFileNotFoundError \<Rightarrow> (Inl (CompilerError (LlvmError LlcNotFoundError)), effects)
            | RaiseCalledProcessError err \<Rightarrow> (Inl (CompilerError (LlvmError (LlcError err))), effects)
            | RaiseOther e \<Rightarrow> (Inl (OtherException e), effects)
            | Completed \<Rightarrow> (Inr output_path1, effects)))"

text \<open>The calls of \<open>subprocess.run\<close> among the effects.\<close>

fun is_subprocess_run :: "effect \<Rightarrow> bool" where
  "is_subprocess_run (SubprocessRun cmd t) = True"
| "is_subprocess_run (LogInfoExecuting cmd) = False"

text \<open>
  The command list of a call that gets as far as \<open>subprocess.run\<close>: the default
  output path is filled in first.
\<close>

definition spawned_cmd :: "world \<Rightarrow> Path \<Rightarrow> Path option \<Rightarrow> cmd_arg list" where
  "spawned_cmd w input_path output_path =
     build_cmd w input_path (if \<not> truthy output_path then Some DEFAULT_OBJ else output_path)"

section \<open>The console interface\<close>

text \<open>
  What \<open>parser.parse_args()\<close> returns: one attribute per argument the parser declares.
  A flag (\<open>store_true\<close>) is a bool; an option or a positional that was not given is
  \<open>None\<close>.
\<close>

record Namespace =
  verbose :: bool
  "module_name" :: "string option"
  input :: "Path option"
  hugr :: bool
  hugr_mlir :: bool
  llvm_mlir :: bool
  llvm :: bool
  bitcode :: bool
  textual :: bool
  store_hugr :: "Path option"
  store_hugr_mlir :: "Path option"
  store_llvm_mlir :: "Path option"
  store_llvm :: "Path option"
  store_obj :: "Path option"
  store_bin :: "Path option"
  "output" :: "Path option"
  no_run :: bool

text \<open>The namespace once \<open>parse_args\<close> has set \<open>args.input_stage\<close>.\<close>

record StagedNamespace = Namespace +
  input_stage :: Stage

text \<open>The namespace once \<open>parse_args\<close> has set \<open>args.input_encoding\<close> too.\<close>

record ResolvedNamespace = StagedNamespace +
  input_encoding :: EncodingMode

text \<open>
  The two mutually exclusive groups of the parser: at most one of \<open>--hugr\<close>,
  \<open>--hugr-mlir\<close>, \<open>--llvm-mlir\<close>, \<open>--llvm\<close>, and at most one of \<open>--bitcode\<close>,
  \<open>--textual\<close>. \<open>parser.parse_args()\<close> returns no namespace that breaks them.
\<close>

definition input_mode_exclusive :: "'a Namespace_scheme \<Rightarrow> bool" where
  "input_mode_exclusive args =
     (length (filter id [hugr args, hugr_mlir args, llvm_mlir args, llvm args]) \<le> 1)"

definition input_encoding_exclusive :: "'a Namespace_scheme \<Rightarrow> bool" where
  "input_encoding_exclusive args = (\<not> (bitcode args \<and> textual args))"

text \<open>\<open>get_input_state\<close>.\<close>

definition get_input_state :: "'a Namespace_scheme \<Rightarrow> Stage" where
  "get_input_state args =
     (if hugr args then HUGR
      else if hugr_mlir args then HUGR_MLIR
      else if llvm_mlir args then LOWERED_MLIR
      else if llvm args then LLVM
      else GUPPY)"

text \<open>The record \<open>LOGGER.info\<close> receives in \<open>get_input_encoding\<close>, with its argument.\<close>

datatype log_record = CannotDetectEncoding EncodingMode

text \<open>
  \<open>get_input_encoding\<close>, with the log records it writes. \<open>EncodingMode.from_file\<close>
  belongs to \<open>guppy_runner/stage.py\<close>, which is not among the sources: it is the
  parameter \<open>from_file\<close>, from a path and a stage to an encoding or \<open>None\<close>.
\<close>

definition get_input_encoding ::
  "(Path \<Rightarrow> Stage \<Rightarrow> EncodingMode option) \<Rightarrow> 'a StagedNamespace_scheme
     \<Rightarrow> EncodingMode \<times> log_record list" where
  "get_input_encoding from_file args =
     (if textual args then (TEXTUAL, [])
      else if bitcode args then (BITCODE, [])
      else
        let detected =
              (case input args of
                 Some p \<Rightarrow> from_file p (input_stage args)
               | None \<Rightarrow> Some TEXTUAL)
        in (case detected of
              None \<Rightarrow> (BITCODE, [CannotDetectEncoding BITCODE])
            | Some e \<Rightarrow> (e, [])))"

text \<open>The list \<open>store_requires\<close> of \<open>validate_args\<close>.\<close>

definition store_requires :: "'a StagedNamespace_scheme \<Rightarrow> (Path option \<times> Stage) list" where
  "store_requires args =
     [(store_hugr args, HUGR),
      (store_hugr_mlir args, HUGR_MLIR),
      (store_llvm_mlir args, LOWERED_MLIR),
      (store_llvm args, LLVM),
      (store_obj args, OBJECT),
      (store_bin args, EXECUTABLE)]"

text \<open>The message \<open>validate_args\<close> hands to \<open>parser.error\<close>.\<close>

definition cannot_produce :: "Stage \<Rightarrow> string" where
  "cannot_produce stage = ''Cannot produce a '' @ stage_name stage @ '' artifact from the given input.''"

text \<open>
  The loop of \<open>validate_args\<close>. \<open>parser.error(message)\<close> does not return (it prints the
  usage and the message and exits), so the loop ends at the first entry that fails:
  \<open>Inl message\<close>.
\<close>

fun validate_loop :: "Stage \<Rightarrow> (Path option \<times> Stage) list \<Rightarrow> string + unit" where
  "validate_loop st [] = Inr ()"
| "validate_loop st ((store, stage) # rest) =
     (if store \<noteq> None \<and> stage_ge st stage then Inl (cannot_produce stage)
      else validate_loop st rest)"

definition validate_args :: "'a StagedNamespace_scheme \<Rightarrow> string + unit" where
  "validate_args args = validate_loop (input_stage args) (store_requires args)"

text \<open>\<open>args.input_stage = get_input_state(args)\<close>.\<close>

definition set_input_stage :: "Namespace \<Rightarrow> StagedNamespace" where
  "set_input_stage parsed =
     Namespace.extend parsed (StagedNamespace.fields (get_input_state parsed))"

text \<open>
  The part of \<open>parse_args\<close> after \<open>parser.parse_args()\<close>: it sets \<open>input_stage\<close> and
  \<open>input_encoding\<close> and validates. The result is the message of the parser error or
  the namespace, with the log records written on the way.
\<close>

definition parse_args ::
  "(Path \<Rightarrow> Stage \<Rightarrow> EncodingMode option) \<Rightarrow> Namespace
     \<Rightarrow> (string + ResolvedNamespace) \<times> log_record list" where
  "parse_args from_file parsed =
     (let args1 = set_input_stage parsed;
          (encoding, logs) = get_input_encoding from_file args1;
          args2 = StagedNamespace.extend args1 (ResolvedNamespace.fields encoding)
      in (case validate_args args2 of
            Inl msg \<Rightarrow> (Inl msg, logs)
          | Inr u \<Rightarrow> (Inr args2, logs)))"

text \<open>
  What \<open>main\<close> calls and the sources do not hold: \<open>EncodingMode.from_file\<close>,
  \<open>StageData.from_path\<close> and \<open>StageData.from_stdin\<close> (\<open>Inl\<close> is an exception they
  raise), and \<open>run_guppy_from_stage\<close>, which reports success as a bool. \<open>'sd\<close> is the
  type of a \<open>StageData\<close>.
\<close>

record 'sd runner =
  from_file :: "Path \<Rightarrow> Stage \<Rightarrow> EncodingMode option"
  from_path :: "Stage \<Rightarrow> Path \<Rightarrow> EncodingMode \<Rightarrow> string + 'sd"
  from_stdin :: "Stage \<Rightarrow> EncodingMode \<Rightarrow> string + 'sd"
  run_guppy_from_stage ::
    "'sd \<Rightarrow> Path option \<Rightarrow> Path option \<Rightarrow> Path option \<Rightarrow> Path option \<Rightarrow> Path option
       \<Rightarrow> Path option \<Rightarrow> bool \<Rightarrow> string option \<Rightarrow> bool"

text \<open>How \<open>main\<close> ends: it returns, or \<open>SystemExit\<close> or another exception leaves it.\<close>

datatype outcome = Returned | SystemExit int | Uncaught string

text \<open>
  The exit code of the process: 0 when \<open>main\<close> returns, the code of a \<open>SystemExit\<close>,
  1 when an exception is not caught.
\<close>

fun exit_code :: "outcome \<Rightarrow> int" where
  "exit_code Returned = 0"
| "exit_code (SystemExit n) = n"
| "exit_code (Uncaught e) = 1"

text \<open>What \<open>main\<close> does, in order.\<close>

datatype 'sd event =
    LogInfo log_record
  | ParserError string
  | LoggingBasicConfig
  | StageDataFromPath Stage Path EncodingMode
  | StageDataFromStdin Stage EncodingMode
  | RunGuppyFromStage 'sd

text \<open>The events that build a \<open>StageData\<close> or run the pipeline.\<close>

fun is_pipeline_work :: "'sd event \<Rightarrow> bool" where
  "is_pipeline_work (StageDataFromPath st p e) = True"
| "is_pipeline_work (StageDataFromStdin st e) = True"
| "is_pipeline_work (RunGuppyFromStage sd) = True"
| "is_pipeline_work (LogInfo r) = False"
| "is_pipeline_work (ParserError msg) = False"
| "is_pipeline_work LoggingBasicConfig = False"

text \<open>
  The \<open>StageData\<close> \<open>main\<close> builds, with the event of building it. \<open>if args.input\<close>
  holds exactly when a path was given: every Path object is truthy.
\<close>

definition load_stage_data ::
  "'sd runner \<Rightarrow> ResolvedNamespace \<Rightarrow> (string + 'sd) \<times> 'sd event" where
  "load_stage_data r args =
     (case input args of
        Some p \<Rightarrow>
          (from_path r (input_stage args) p (input_encoding args),
           StageDataFromPath (input_stage args) p (input_encoding args))
      | None \<Rightarrow>
          (from_stdin r (input_stage args) (input_encoding args),
           StageDataFromStdin (input_stage args) (input_encoding args)))"

text \<open>The call of \<open>run_guppy_from_stage\<close> in \<open>main\<close>.\<close>

definition run_pipeline :: "'sd runner \<Rightarrow> ResolvedNamespace \<Rightarrow> 'sd \<Rightarrow> bool" where
  "run_pipeline r args stage_data =
     run_guppy_from_stage r stage_data (store_hugr args) (store_hugr_mlir args)
       (store_llvm_mlir args) (store_llvm args) (store_obj args) (store_bin args)
       (no_run args) (module_name args)"

text \<open>
  \<open>main\<close>, from the namespace \<open>parser.parse_args()\<close> returned. \<open>parser.error\<close> exits
  with status 2.
\<close>

definition main :: "'sd runner \<Rightarrow> Namespace \<Rightarrow> outcome \<times> 'sd event list" where
  "main r parsed =
     (case parse_args (from_file r) parsed of
        (Inl msg, logs) \<Rightarrow> (SystemExit 2, map LogInfo logs @ [ParserError msg])
      | (Inr args, logs) \<Rightarrow>
          let events = map LogInfo logs @ (if verbose args then [LoggingBasicConfig] else [])
          in (case load_stage_data r args of
                (Inl e, built) \<Rightarrow> (Uncaught e, events @ [built])
              | (Inr stage_data, built) \<Rightarrow>
                  let success = run_pipeline r args stage_data
                  in (if \<not> success then SystemExit 1 else Returned,
                      events @ [built, RunGuppyFromStage stage_data])))"

text \<open>The namespace of a command line without arguments: the defaults of the parser.\<close>

definition no_arguments :: Namespace where
  "no_arguments =
     \<lparr>verbose = False, module_name = None, input = None,
      hugr = False, hugr_mlir = False, llvm_mlir = False, llvm = False,
      bitcode = False, textual = False,
      store_hugr = None, store_hugr_mlir = None, store_llvm_mlir = None, store_llvm = None,
      store_obj = None, store_bin = None, output = None, no_run = False\<rparr>"

text \<open>
  The stages \<open>validate_args\<close> cannot produce, in the words of the rule: those of the
  store options that were given and lie at or before the input stage.
\<close>

definition offending_stages :: "'a StagedNamespace_scheme \<Rightarrow> Stage list" where
  "offending_stages args =
     map snd (filter (\<lambda>(store, stage). store \<noteq> None \<and> stage_ge (input_stage args) stage)
                     (store_requires args))"

section \<open>Properties of \<open>LlvmCompiler\<close>\<close>

lemma process_stage_not_textual:
  assumes "output_encoding \<noteq> TEXTUAL"
  shows "process_stage w input_path in_enc output_path output_encoding temp_file modname =
     (let cmd = spawned_cmd w input_path output_path;
          effects = [LogInfoExecuting cmd, SubprocessRun cmd False]
      in (case subprocess_run w cmd False of
            RaiseFileNotFoundError \<Rightarrow> (Inl (CompilerError (LlvmError LlcNotFoundError)), effects)
          | RaiseCalledProcessError err \<Rightarrow> (Inl (CompilerError (LlvmError (LlcError err))), effects)
          | RaiseOther e \<Rightarrow> (Inl (OtherException e), effects)
          | Completed \<Rightarrow>
              (Inr (if \<not> truthy output_path then Some DEFAULT_OBJ else output_path), effects)))"
  using assms by (simp add: process_stage_def spawned_cmd_def Let_def)

lemma spawned_cmd_eq:
  "spawned_cmd w input_path output_path =
     [PathArg (fst (get_compiler w)), PathArg input_path, StrArg ''--filetype=obj'', StrArg ''-o'',
      PathArg (case output_path of None \<Rightarrow> DEFAULT_OBJ | Some p \<Rightarrow> p)]"
  by (cases output_path) (simp_all add: spawned_cmd_def build_cmd_def)

text \<open>
  C1. A call with \<open>output_encoding = TEXTUAL\<close> raises \<open>UnsupportedEncodingError\<close> built
  from the \<open>OBJECT\<close> stage and the requested encoding, whatever the other arguments and
  the world are, and it has no effect at all: \<open>subprocess.run\<close> is not called.
\<close>

theorem process_stage_textual_unsupported:
  "process_stage w input_path in_enc output_path TEXTUAL temp_file modname =
     (Inl (CompilerError (UnsupportedEncodingError OBJECT TEXTUAL)), [])"
  by (simp add: process_stage_def OUTPUT_STAGE_def)

text \<open>
  What \<open>_get_compiler\<close> returns, by the environment alone: with \<open>LLC\<close> set, the path
  pathlib builds from its value and the flag true; otherwise the path of the bare name
  \<open>llc\<close> and the flag false. The path is the first word of the command that is run.
\<close>

lemma get_compiler_cases:
  "(environ w1 = environ w2 \<longrightarrow> get_compiler w1 = get_compiler w2) \<and>
   (environ w ''LLC'' = Some v \<longrightarrow> get_compiler w = (Path v, True)) \<and>
   (environ w ''LLC'' = None \<longrightarrow> get_compiler w = (Path ''llc'', False)) \<and>
   hd (spawned_cmd w input_path output_path) = PathArg (fst (get_compiler w))"
  by (simp add: get_compiler_def LLC_ENV_def LLC_def spawned_cmd_eq)

lemma Path_dot_slash_llc: "Path ''./llc'' = PosixPath ''llc''"
  by (simp add: Path_def splitroot_def)

lemma Path_llc: "Path ''llc'' = PosixPath ''llc''"
  by (simp add: Path_def splitroot_def)

lemma Path_absolute_llc: "Path ''/opt/llvm/bin/llc'' = PosixPath ''/opt/llvm/bin/llc''"
  by (simp add: Path_def splitroot_def)

lemma Path_default_obj: "DEFAULT_OBJ = PosixPath ''a.o''"
  by (simp add: DEFAULT_OBJ_def Path_def splitroot_def)

lemma Path_empty: "Path [] = PosixPath ''.''"
  by (simp add: Path_def splitroot_def)

text \<open>
  C6. The code misses the claim: the value of \<open>LLC\<close> goes through \<open>Path(...)\<close>, and
  pathlib drops a leading \<open>./\<close>. With \<open>LLC=./llc\<close> the flag is true, but the path
  returned is the bare name \<open>llc\<close>, without a slash, not the value of the variable:
  the command that is run is the very command that is run with \<open>LLC\<close> unset, so the
  binary is looked up on the search path and the override is lost.
\<close>

theorem get_compiler_loses_dot_slash_override:
  "get_compiler \<lparr>environ = [''LLC'' \<mapsto> ''./llc''], subprocess_run = (\<lambda>cmd t. Completed)\<rparr>
     = (PosixPath ''llc'', True) \<and>
   get_compiler \<lparr>environ = Map.empty, subprocess_run = (\<lambda>cmd t. Completed)\<rparr>
     = (PosixPath ''llc'', False) \<and>
   path_text (fst (get_compiler
       \<lparr>environ = [''LLC'' \<mapsto> ''./llc''], subprocess_run = (\<lambda>cmd t. Completed)\<rparr>)) \<noteq> ''./llc'' \<and>
   CHR ''/'' \<notin> set (path_text (fst (get_compiler
       \<lparr>environ = [''LLC'' \<mapsto> ''./llc''], subprocess_run = (\<lambda>cmd t. Completed)\<rparr>))) \<and>
   spawned_cmd \<lparr>environ = [''LLC'' \<mapsto> ''./llc''], subprocess_run = (\<lambda>cmd t. Completed)\<rparr>
       (PosixPath ''main.ll'') None
     = spawned_cmd \<lparr>environ = Map.empty, subprocess_run = (\<lambda>cmd t. Completed)\<rparr>
         (PosixPath ''main.ll'') None \<and>
   hd (spawned_cmd \<lparr>environ = [''LLC'' \<mapsto> ''./llc''], subprocess_run = (\<lambda>cmd t. Completed)\<rparr>
         (PosixPath ''main.ll'') None)
     = PathArg (PosixPath ''llc'')"
  by (simp add: get_compiler_def LLC_ENV_def LLC_def spawned_cmd_eq Path_dot_slash_llc Path_llc)

text \<open>
  C9. The arguments \<open>input_encoding\<close>, \<open>temp_file\<close> and \<open>module_name\<close> have no
  influence: two calls that differ in these three arguments only raise or return the
  same, with the same effects (the same command line).
\<close>

theorem process_stage_ignores_discarded_arguments:
  "process_stage w input_path in_enc1 output_path output_encoding tmp1 mod1 =
   process_stage w input_path in_enc2 output_path output_encoding tmp2 mod2"
  by (simp add: process_stage_def)

text \<open>
  C7, as the claim has it, fails: an empty path is a Path object, hence truthy, and the
  call returns it and not the default.
\<close>

theorem process_stage_empty_output_path_counterexample:
  "fst (process_stage \<lparr>environ = Map.empty, subprocess_run = (\<lambda>cmd t. Completed)\<rparr>
          (Path ''main.ll'') TEXTUAL (Some (Path [])) BITCODE False None)
     = Inr (Some (Path [])) \<and>
   Path [] \<noteq> DEFAULT_OBJ"
  by (simp add: process_stage_def DEFAULT_OBJ_def Let_def Path_def splitroot_def)

text \<open>
  C7, amended. A call that returns, returns the \<open>output_path\<close> argument whenever it is
  not \<open>None\<close> (the empty path included) and \<open>Path("a.o")\<close> when it is \<open>None\<close>; this
  path follows \<open>-o\<close> on the one command line that is run. The default is the same fixed
  name for every world and every input.
\<close>

theorem process_stage_returns_output_path:
  assumes "process_stage w input_path in_enc output_path output_encoding temp_file modname
             = (Inr r, effects)"
  shows "r = Some (case output_path of None \<Rightarrow> Path ''a.o'' | Some p \<Rightarrow> p) \<and>
         effects =
           [LogInfoExecuting
              [PathArg (fst (get_compiler w)), PathArg input_path, StrArg ''--filetype=obj'',
               StrArg ''-o'', PathArg (case output_path of None \<Rightarrow> Path ''a.o'' | Some p \<Rightarrow> p)],
            SubprocessRun
              [PathArg (fst (get_compiler w)), PathArg input_path, StrArg ''--filetype=obj'',
               StrArg ''-o'', PathArg (case output_path of None \<Rightarrow> Path ''a.o'' | Some p \<Rightarrow> p)]
              False]"
proof -
  have enc: "output_encoding \<noteq> TEXTUAL"
    using assms by (auto simp: process_stage_def)
  show ?thesis
    using assms unfolding process_stage_not_textual [OF enc] spawned_cmd_eq
    by (cases output_path) (auto simp: Let_def DEFAULT_OBJ_def split: run_outcome.splits)
qed

theorem process_stage_returns_output_path_witness:
  "process_stage \<lparr>environ = Map.empty, subprocess_run = (\<lambda>cmd t. Completed)\<rparr>
          (Path ''main.ll'') TEXTUAL None BITCODE False None
     = (Inr (Some (Path ''a.o'')),
        [LogInfoExecuting [PathArg (Path ''llc''), PathArg (Path ''main.ll''), StrArg ''--filetype=obj'',
                           StrArg ''-o'', PathArg (Path ''a.o'')],
         SubprocessRun [PathArg (Path ''llc''), PathArg (Path ''main.ll''), StrArg ''--filetype=obj'',
                        StrArg ''-o'', PathArg (Path ''a.o'')] False])"
proof -
  let ?w = "\<lparr>environ = Map.empty, subprocess_run = (\<lambda>cmd t. Completed)\<rparr>"
  obtain r effects where run:
    "process_stage ?w (Path ''main.ll'') TEXTUAL None BITCODE False None = (Inr r, effects)"
    by (simp add: process_stage_def Let_def)
  from process_stage_returns_output_path [OF run] run show ?thesis
    by (simp add: get_compiler_def LLC_def)
qed




text \<open>
  \<open>LlcError\<close> on an empty error stream: there is no first line, and the message ends
  after the line break.
\<close>

lemma LlcError_message_empty_stream:
  "LlcError_message \<lparr>returncode = rc, stderr = Bytes []\<rparr>
     = ''An error occurred while calling 'llc':\<newline>''"
  by (simp add: LlcError_message_def err_line_def splitlines_def LLC_def)

text \<open>
  On a bytes stream with a first line, the message ends with the \<open>repr\<close> of that line,
  which starts with the letter b and a quote.
\<close>

lemma LlcError_message_first_line:
  assumes "splitlines_from bytes_linebreak [] b = l # ls"
  shows "LlcError_message \<lparr>returncode = rc, stderr = Bytes b\<rparr>
           = ''An error occurred while calling 'llc':\<newline>'' @ bytes_repr l"
    and "take 1 (bytes_repr l) = ''b''"
  using assms
  by (simp_all add: LlcError_message_def err_line_def splitlines_def LLC_def bytes_repr_def Let_def)

text \<open>
  C4. The code misses the claim: \<open>subprocess.run\<close> is called with \<open>text=False\<close>, so the
  captured stream is a bytes object, and the f-string of \<open>LlcError\<close> writes the \<open>repr\<close>
  of its first line. Here \<open>llc\<close> exits with status 1 on an input whose name holds the
  two bytes C3 A9 (an accented letter in UTF-8): the call raises \<open>LlcError\<close>, the
  message carries the first line wrapped in \<open>b'...'\<close> with these two bytes written as
  escapes, and the first line itself does not occur in it.
\<close>

theorem LlcError_message_is_bytes_repr:
  "fst (process_stage
          \<lparr>environ = Map.empty,
             subprocess_run = (\<lambda>cmd t. RaiseCalledProcessError
               \<lparr>returncode = 1,
                  stderr =
                    (if t then Text (''llc: error: llc: caf'' @ [CHR 0xE9]
                                     @ ''.ll:1:1: error: expected top-level entity\<newline>'')
                     else Bytes (''llc: error: llc: caf'' @ [CHR 0xC3, CHR 0xA9]
                                 @ ''.ll:1:1: error: expected top-level entity\<newline>''))\<rparr>)\<rparr>
          (Path (''caf'' @ [CHR 0xC3, CHR 0xA9] @ ''.ll'')) TEXTUAL None BITCODE False None)
     = Inl (CompilerError (LlvmError (LlcError
         \<lparr>returncode = 1,
            stderr = Bytes (''llc: error: llc: caf'' @ [CHR 0xC3, CHR 0xA9]
                            @ ''.ll:1:1: error: expected top-level entity\<newline>'')\<rparr>))) \<and>
   message (LlcError
         \<lparr>returncode = 1,
            stderr = Bytes (''llc: error: llc: caf'' @ [CHR 0xC3, CHR 0xA9]
                            @ ''.ll:1:1: error: expected top-level entity\<newline>'')\<rparr>)
     = ''An error occurred while calling 'llc':\<newline>'' @ ''b'' @ [CHR 0x27]
       @ ''llc: error: llc: caf'' @ [CHR 0x5C] @ ''xc3'' @ [CHR 0x5C] @ ''xa9''
       @ ''.ll:1:1: error: expected top-level entity'' @ [CHR 0x27] \<and>
   \<not> sublist (''llc: error: llc: caf'' @ [CHR 0xC3, CHR 0xA9]
               @ ''.ll:1:1: error: expected top-level entity'')
       (message (LlcError
         \<lparr>returncode = 1,
            stderr = Bytes (''llc: error: llc: caf'' @ [CHR 0xC3, CHR 0xA9]
                            @ ''.ll:1:1: error: expected top-level entity\<newline>'')\<rparr>))"
proof -
  let ?err = "''llc: error: llc: caf'' @ [CHR 0xC3, CHR 0xA9]
              @ ''.ll:1:1: error: expected top-level entity\<newline>''"
  let ?line = "''llc: error: llc: caf'' @ [CHR 0xC3, CHR 0xA9]
               @ ''.ll:1:1: error: expected top-level entity''"
  let ?perror = "\<lparr>returncode = 1, stderr = Bytes ?err\<rparr>"
  have split: "splitlines_from bytes_linebreak [] ?err = [?line]"
    by (simp add: bytes_linebreak_def)
  have line: "err_line ?perror = Bytes ?line"
    using split by (simp add: err_line_def splitlines_def)
  have repr: "bytes_repr ?line
      = ''b'' @ [CHR 0x27] @ ''llc: error: llc: caf'' @ [CHR 0x5C] @ ''xc3'' @ [CHR 0x5C] @ ''xa9''
        @ ''.ll:1:1: error: expected top-level entity'' @ [CHR 0x27]"
    by (simp add: bytes_repr_def repr_byte_def hexdigits_def Let_def)
  have msg: "message (LlcError ?perror)
      = ''An error occurred while calling 'llc':\<newline>'' @ ''b'' @ [CHR 0x27]
        @ ''llc: error: llc: caf'' @ [CHR 0x5C] @ ''xc3'' @ [CHR 0x5C] @ ''xa9''
        @ ''.ll:1:1: error: expected top-level entity'' @ [CHR 0x27]"
    by (simp only: message.simps LlcError_message_def line format_value.simps repr LLC_def) simp
  have "CHR 0xC3 \<notin> set (message (LlcError ?perror))"
    unfolding msg by simp
  moreover have "CHR 0xC3 \<in> set ?line"
    by simp
  ultimately have absent: "\<not> sublist ?line (message (LlcError ?perror))"
    using set_mono_sublist [of ?line "message (LlcError ?perror)"] by blast
  have raised: "fst (process_stage
          \<lparr>environ = Map.empty,
             subprocess_run = (\<lambda>cmd t. RaiseCalledProcessError
               \<lparr>returncode = 1,
                  stderr =
                    (if t then Text (''llc: error: llc: caf'' @ [CHR 0xE9]
                                     @ ''.ll:1:1: error: expected top-level entity\<newline>'')
                     else Bytes ?err)\<rparr>)\<rparr>
          (Path (''caf'' @ [CHR 0xC3, CHR 0xA9] @ ''.ll'')) TEXTUAL None BITCODE False None)
     = Inl (CompilerError (LlvmError (LlcError ?perror)))"
    by (simp add: process_stage_def Let_def)
  show ?thesis
    by (intro conjI) (rule raised msg absent)+
qed

section \<open>Properties of the console interface\<close>

lemma sel_set_input_stage [simp]:
  "input_stage (set_input_stage parsed) = get_input_state parsed"
  "store_hugr (set_input_stage parsed) = store_hugr parsed"
  "store_hugr_mlir (set_input_stage parsed) = store_hugr_mlir parsed"
  "store_llvm_mlir (set_input_stage parsed) = store_llvm_mlir parsed"
  "store_llvm (set_input_stage parsed) = store_llvm parsed"
  "store_obj (set_input_stage parsed) = store_obj parsed"
  "store_bin (set_input_stage parsed) = store_bin parsed"
  "textual (set_input_stage parsed) = textual parsed"
  "bitcode (set_input_stage parsed) = bitcode parsed"
  "input (set_input_stage parsed) = input parsed"
  by (simp_all add: set_input_stage_def Namespace.defs StagedNamespace.defs)

lemma sel_extend_encoding [simp]:
  "input_stage (StagedNamespace.extend a (ResolvedNamespace.fields e)) = input_stage a"
  "input_encoding (StagedNamespace.extend a (ResolvedNamespace.fields e)) = e"
  "store_requires (StagedNamespace.extend a (ResolvedNamespace.fields e)) = store_requires a"
  "verbose (StagedNamespace.extend a (ResolvedNamespace.fields e)) = verbose a"
  "input (StagedNamespace.extend a (ResolvedNamespace.fields e)) = input a"
  by (simp_all add: StagedNamespace.defs ResolvedNamespace.defs store_requires_def)

text \<open>
  C2. \<open>get_input_encoding\<close> returns one of the two encodings on every namespace and
  raises nothing. \<open>--textual\<close> gives \<open>TEXTUAL\<close> and \<open>--bitcode\<close> gives \<open>BITCODE\<close> (the
  parser accepts at most one of the two), whatever the input path and the stage are. With
  neither, an input file whose encoding \<open>from_file\<close> does not detect defaults to
  \<open>BITCODE\<close> with one informational log record, a detected encoding is returned as it
  is, and no input file (standard input) gives \<open>TEXTUAL\<close>.
\<close>

theorem get_input_encoding_resolution:
  "(textual args \<longrightarrow> get_input_encoding ff args = (TEXTUAL, [])) \<and>
   (bitcode args \<and> input_encoding_exclusive args \<longrightarrow> get_input_encoding ff args = (BITCODE, [])) \<and>
   (\<not> textual args \<and> \<not> bitcode args \<and> input args = Some p \<and> ff p (input_stage args) = None \<longrightarrow>
      get_input_encoding ff args = (BITCODE, [CannotDetectEncoding BITCODE])) \<and>
   (\<not> textual args \<and> \<not> bitcode args \<and> input args = Some p \<and> ff p (input_stage args) = Some e \<longrightarrow>
      get_input_encoding ff args = (e, [])) \<and>
   (\<not> textual args \<and> \<not> bitcode args \<and> input args = None \<longrightarrow>
      get_input_encoding ff args = (TEXTUAL, [])) \<and>
   fst (get_input_encoding ff args) \<in> {TEXTUAL, BITCODE}"
  by (cases "fst (get_input_encoding ff args)")
     (auto simp: get_input_encoding_def input_encoding_exclusive_def)

lemma validate_loop_filter:
  "validate_loop st xs =
     (case map snd (filter (\<lambda>(store, stage). store \<noteq> None \<and> stage_ge st stage) xs) of
        [] \<Rightarrow> Inr ()
      | stage # rest \<Rightarrow> Inl (cannot_produce stage))"
proof (induction xs)
  case Nil
  show ?case by simp
next
  case (Cons x xs)
  obtain store stage where x: "x = (store, stage)" by (cases x)
  show ?case
  proof (cases "store \<noteq> None \<and> stage_ge st stage")
    case True
    then show ?thesis by (cases store) (auto simp: x)
  next
    case False
    then show ?thesis using Cons.IH by (cases store) (auto simp: x)
  qed
qed

lemma validate_args_offending:
  "validate_args args =
     (case offending_stages args of [] \<Rightarrow> Inr () | stage # rest \<Rightarrow> Inl (cannot_produce stage))"
  by (simp add: validate_args_def offending_stages_def validate_loop_filter)

lemma offending_resolved:
  "offending_stages (StagedNamespace.extend a (ResolvedNamespace.fields e)) = offending_stages a"
  by (simp add: offending_stages_def)

lemma parse_args_eq:
  "parse_args ff parsed =
     (case offending_stages (set_input_stage parsed) of
        [] \<Rightarrow> (Inr (StagedNamespace.extend (set_input_stage parsed)
                      (ResolvedNamespace.fields (fst (get_input_encoding ff (set_input_stage parsed))))),
               snd (get_input_encoding ff (set_input_stage parsed)))
      | stage # rest \<Rightarrow> (Inl (cannot_produce stage), snd (get_input_encoding ff (set_input_stage parsed))))"
  by (simp add: parse_args_def Let_def split_beta validate_args_offending offending_resolved
           split: list.splits)

lemma main_pipeline_work_free:
  "filter is_pipeline_work (map LogInfo logs) = []"
  by (induction logs) auto

lemma validate_args_resolved:
  "validate_args (StagedNamespace.extend a (ResolvedNamespace.fields e)) = validate_args a"
  by (simp add: validate_args_def)

lemma parse_args_validate:
  "parse_args ff parsed =
     (case validate_args (set_input_stage parsed) of
        Inl msg \<Rightarrow> (Inl msg, snd (get_input_encoding ff (set_input_stage parsed)))
      | Inr u \<Rightarrow>
          (Inr (StagedNamespace.extend (set_input_stage parsed)
                  (ResolvedNamespace.fields (fst (get_input_encoding ff (set_input_stage parsed))))),
           snd (get_input_encoding ff (set_input_stage parsed))))"
  by (simp add: parse_args_def Let_def split_beta validate_args_resolved split: sum.splits)

lemma validate_args_table:
  "validate_args args =
     (if store_hugr args \<noteq> None \<and>
         input_stage args \<in> {HUGR, HUGR_MLIR, LOWERED_MLIR, LLVM, OBJECT, EXECUTABLE}
      then Inl ''Cannot produce a HUGR artifact from the given input.''
      else if store_hugr_mlir args \<noteq> None \<and>
         input_stage args \<in> {HUGR_MLIR, LOWERED_MLIR, LLVM, OBJECT, EXECUTABLE}
      then Inl ''Cannot produce a HUGR_MLIR artifact from the given input.''
      else if store_llvm_mlir args \<noteq> None \<and>
         input_stage args \<in> {LOWERED_MLIR, LLVM, OBJECT, EXECUTABLE}
      then Inl ''Cannot produce a LOWERED_MLIR artifact from the given input.''
      else if store_llvm args \<noteq> None \<and> input_stage args \<in> {LLVM, OBJECT, EXECUTABLE}
      then Inl ''Cannot produce a LLVM artifact from the given input.''
      else if store_obj args \<noteq> None \<and> input_stage args \<in> {OBJECT, EXECUTABLE}
      then Inl ''Cannot produce a OBJECT artifact from the given input.''
      else if store_bin args \<noteq> None \<and> input_stage args \<in> {EXECUTABLE}
      then Inl ''Cannot produce a EXECUTABLE artifact from the given input.''
      else Inr ())"
  by (cases "input_stage args")
     (simp_all add: validate_args_def store_requires_def stage_ge_def cannot_produce_def)

text \<open>
  C3. \<open>validate_args\<close> checks the six store options in the order of their stages, each
  against its own stage: \<open>--store-hugr\<close> against \<open>HUGR\<close>, \<open>--store-hugr-mlir\<close> against
  \<open>HUGR_MLIR\<close>, \<open>--store-llvm-mlir\<close> against \<open>LOWERED_MLIR\<close>, \<open>--store-llvm\<close> against
  \<open>LLVM\<close>, \<open>--store-obj\<close> against \<open>OBJECT\<close> and \<open>--store-bin\<close> against \<open>EXECUTABLE\<close>.
  The first one that is given while the input stage is its stage or a later one is
  reported with a message naming that stage; with none, validation returns. \<open>main\<close>
  validates the namespace whose input stage is the one \<open>get_input_state\<close> resolves and
  whose store options are the parsed ones. A reported option ends \<open>main\<close> with the
  parser's error (exit status 2, the message last) before a \<open>StageData\<close> is built or the
  pipeline runs; otherwise the arguments are accepted and the parser reports no error.
\<close>

theorem validate_args_usage_error:
  "validate_args args =
     (if store_hugr args \<noteq> None \<and>
         input_stage args \<in> {HUGR, HUGR_MLIR, LOWERED_MLIR, LLVM, OBJECT, EXECUTABLE}
      then Inl ''Cannot produce a HUGR artifact from the given input.''
      else if store_hugr_mlir args \<noteq> None \<and>
         input_stage args \<in> {HUGR_MLIR, LOWERED_MLIR, LLVM, OBJECT, EXECUTABLE}
      then Inl ''Cannot produce a HUGR_MLIR artifact from the given input.''
      else if store_llvm_mlir args \<noteq> None \<and>
         input_stage args \<in> {LOWERED_MLIR, LLVM, OBJECT, EXECUTABLE}
      then Inl ''Cannot produce a LOWERED_MLIR artifact from the given input.''
      else if store_llvm args \<noteq> None \<and> input_stage args \<in> {LLVM, OBJECT, EXECUTABLE}
      then Inl ''Cannot produce a LLVM artifact from the given input.''
      else if store_obj args \<noteq> None \<and> input_stage args \<in> {OBJECT, EXECUTABLE}
      then Inl ''Cannot produce a OBJECT artifact from the given input.''
      else if store_bin args \<noteq> None \<and> input_stage args \<in> {EXECUTABLE}
      then Inl ''Cannot produce a EXECUTABLE artifact from the given input.''
      else Inr ()) \<and>
   input_stage (set_input_stage parsed) = get_input_state parsed \<and>
   store_hugr (set_input_stage parsed) = store_hugr parsed \<and>
   store_hugr_mlir (set_input_stage parsed) = store_hugr_mlir parsed \<and>
   store_llvm_mlir (set_input_stage parsed) = store_llvm_mlir parsed \<and>
   store_llvm (set_input_stage parsed) = store_llvm parsed \<and>
   store_obj (set_input_stage parsed) = store_obj parsed \<and>
   store_bin (set_input_stage parsed) = store_bin parsed \<and>
   (validate_args (set_input_stage parsed) = Inl msg \<longrightarrow>
      main r parsed =
        (SystemExit 2,
         map LogInfo (snd (get_input_encoding (from_file r) (set_input_stage parsed)))
           @ [ParserError msg]) \<and>
      exit_code (fst (main r parsed)) \<noteq> 0 \<and>
      filter is_pipeline_work (snd (main r parsed)) = []) \<and>
   (validate_args (set_input_stage parsed) = Inr () \<longrightarrow>
      (\<exists>args2. fst (parse_args (from_file r) parsed) = Inr args2) \<and>
      (\<forall>m. ParserError m \<notin> set (snd (main r parsed))))"
proof -
  have bad: "validate_args (set_input_stage parsed) = Inl msg \<longrightarrow>
      main r parsed =
        (SystemExit 2,
         map LogInfo (snd (get_input_encoding (from_file r) (set_input_stage parsed)))
           @ [ParserError msg]) \<and>
      exit_code (fst (main r parsed)) \<noteq> 0 \<and>
      filter is_pipeline_work (snd (main r parsed)) = []"
    by (simp add: main_def parse_args_validate main_pipeline_work_free)
  have ok: "validate_args (set_input_stage parsed) = Inr () \<longrightarrow>
      (\<exists>args2. fst (parse_args (from_file r) parsed) = Inr args2) \<and>
      (\<forall>m. ParserError m \<notin> set (snd (main r parsed)))"
    by (auto simp: main_def parse_args_validate Let_def load_stage_data_def
             split: prod.splits sum.splits option.splits if_splits)
  show ?thesis
    using validate_args_table [of args] bad ok by simp
qed

theorem validate_args_usage_error_witness:
  "main \<lparr>from_file = (\<lambda>p st. None), from_path = (\<lambda>st p e. Inr ()),
         from_stdin = (\<lambda>st e. Inr ()),
         run_guppy_from_stage = (\<lambda>sd h hm lm l ob b n m. True)\<rparr>
      (no_arguments\<lparr>llvm := True, store_llvm := Some (Path ''x.ll'')\<rparr>)
     = (SystemExit 2, [ParserError ''Cannot produce a LLVM artifact from the given input.'']) \<and>
   main \<lparr>from_file = (\<lambda>p st. None), from_path = (\<lambda>st p e. Inr ()),
         from_stdin = (\<lambda>st e. Inr ()),
         run_guppy_from_stage = (\<lambda>sd h hm lm l ob b n m. True)\<rparr>
      (no_arguments\<lparr>llvm := True, store_hugr := Some (Path ''out.hugr'')\<rparr>)
     = (SystemExit 2, [ParserError ''Cannot produce a HUGR artifact from the given input.'']) \<and>
   validate_args (set_input_stage (no_arguments\<lparr>llvm := True, store_obj := Some (Path ''out.o'')\<rparr>))
     = Inr ()"
proof -
  let ?r = "\<lparr>from_file = (\<lambda>p st. None), from_path = (\<lambda>st p e. Inr ()),
              from_stdin = (\<lambda>st e. Inr ()),
              run_guppy_from_stage = (\<lambda>sd h hm lm l ob b n m. True)\<rparr> :: unit runner"
  let ?same = "no_arguments\<lparr>llvm := True, store_llvm := Some (Path ''x.ll'')\<rparr>"
  let ?early = "no_arguments\<lparr>llvm := True, store_hugr := Some (Path ''out.hugr'')\<rparr>"
  let ?later = "no_arguments\<lparr>llvm := True, store_obj := Some (Path ''out.o'')\<rparr>"
  have enc: "get_input_encoding (\<lambda>p st. None) (set_input_stage ?same) = (TEXTUAL, [])"
            "get_input_encoding (\<lambda>p st. None) (set_input_stage ?early) = (TEXTUAL, [])"
    by (simp_all add: get_input_encoding_def no_arguments_def)
  have st: "get_input_state ?same = LLVM" "get_input_state ?early = LLVM"
           "get_input_state ?later = LLVM"
    by (simp_all add: get_input_state_def no_arguments_def)
  have opts:
    "store_hugr ?same = None" "store_hugr_mlir ?same = None" "store_llvm_mlir ?same = None"
    "store_llvm ?same = Some (Path ''x.ll'')"
    "store_hugr ?early = Some (Path ''out.hugr'')"
    "store_hugr ?later = None" "store_hugr_mlir ?later = None" "store_llvm_mlir ?later = None"
    "store_llvm ?later = None" "store_obj ?later = Some (Path ''out.o'')"
    "store_bin ?later = None"
    by (simp_all add: no_arguments_def)
  from validate_args_usage_error
         [of "set_input_stage ?same" ?same "''Cannot produce a LLVM artifact from the given input.''" ?r]
  have same: "main ?r ?same
      = (SystemExit 2, [ParserError ''Cannot produce a LLVM artifact from the given input.''])"
    by (simp add: st opts enc)
  from validate_args_usage_error
         [of "set_input_stage ?early" ?early "''Cannot produce a HUGR artifact from the given input.''" ?r]
  have early: "main ?r ?early
      = (SystemExit 2, [ParserError ''Cannot produce a HUGR artifact from the given input.''])"
    by (simp add: st opts enc)
  from validate_args_usage_error [of "set_input_stage ?later" ?later msg ?r]
  have later: "validate_args (set_input_stage ?later) = Inr ()"
    by (simp add: st opts)
  show ?thesis
    by (intro conjI) (rule same early later)+
qed

theorem get_input_encoding_resolution_witness:
  "get_input_encoding (\<lambda>p st. None) (set_input_stage (no_arguments\<lparr>textual := True\<rparr>)) = (TEXTUAL, []) \<and>
   get_input_encoding (\<lambda>p st. None)
      (set_input_stage (no_arguments\<lparr>input := Some (Path ''prog.ll''), bitcode := True\<rparr>)) = (BITCODE, []) \<and>
   get_input_encoding (\<lambda>p st. None)
      (set_input_stage (no_arguments\<lparr>input := Some (Path ''prog.xyz'')\<rparr>))
     = (BITCODE, [CannotDetectEncoding BITCODE]) \<and>
   get_input_encoding (\<lambda>p st. None) (set_input_stage no_arguments) = (TEXTUAL, [])"
  using get_input_encoding_resolution
          [of "set_input_stage (no_arguments\<lparr>textual := True\<rparr>)" "\<lambda>p st. None"]
        get_input_encoding_resolution
          [of "set_input_stage (no_arguments\<lparr>input := Some (Path ''prog.ll''), bitcode := True\<rparr>)"
              "\<lambda>p st. None"]
        get_input_encoding_resolution
          [of "set_input_stage (no_arguments\<lparr>input := Some (Path ''prog.xyz'')\<rparr>)"
              "\<lambda>p st. None" "Path ''prog.xyz''"]
        get_input_encoding_resolution
          [of "set_input_stage no_arguments" "\<lambda>p st. None"]
  by (simp add: no_arguments_def input_encoding_exclusive_def)

lemma stage_name_inj: "stage_name s = stage_name t \<Longrightarrow> s = t"
  by (cases s; cases t) simp_all

lemma cannot_produce_inj: "cannot_produce s = cannot_produce t \<Longrightarrow> s = t"
  by (simp add: cannot_produce_def stage_name_inj)

lemma get_input_state_cases:
  "get_input_state args \<in> {GUPPY, HUGR, HUGR_MLIR, LOWERED_MLIR, LLVM}"
  by (simp add: get_input_state_def)

lemma offending_stages_before_input:
  "stage \<in> set (offending_stages args) \<Longrightarrow> stage_ge (input_stage args) stage"
  by (auto simp: offending_stages_def)

text \<open>
  C10. \<open>get_input_state\<close> returns one of \<open>GUPPY\<close>, \<open>HUGR\<close>, \<open>HUGR_MLIR\<close>,
  \<open>LOWERED_MLIR\<close>, \<open>LLVM\<close>, never \<open>OBJECT\<close> or \<open>EXECUTABLE\<close>, and \<open>GUPPY\<close> when no
  stage flag is given. So \<open>--store-obj\<close> and \<open>--store-bin\<close> never fail the validation:
  neither stage is among the offending ones, the error never names them, and a
  command line with no other store option always validates.
\<close>

theorem get_input_state_never_object:
  "get_input_state args \<in> {GUPPY, HUGR, HUGR_MLIR, LOWERED_MLIR, LLVM} \<and>
   get_input_state args \<noteq> OBJECT \<and> get_input_state args \<noteq> EXECUTABLE \<and>
   (\<not> hugr args \<and> \<not> hugr_mlir args \<and> \<not> llvm_mlir args \<and> \<not> llvm args \<longrightarrow>
      get_input_state args = GUPPY) \<and>
   OBJECT \<notin> set (offending_stages (set_input_stage parsed)) \<and>
   EXECUTABLE \<notin> set (offending_stages (set_input_stage parsed)) \<and>
   validate_args (set_input_stage parsed) \<noteq> Inl (cannot_produce OBJECT) \<and>
   validate_args (set_input_stage parsed) \<noteq> Inl (cannot_produce EXECUTABLE) \<and>
   (store_hugr parsed = None \<and> store_hugr_mlir parsed = None \<and> store_llvm_mlir parsed = None \<and>
    store_llvm parsed = None \<longrightarrow> validate_args (set_input_stage parsed) = Inr ())"
proof -
  have range: "\<And>a. get_input_state a \<in> {GUPPY, HUGR, HUGR_MLIR, LOWERED_MLIR, LLVM}"
    by (rule get_input_state_cases)
  have no_obj: "OBJECT \<notin> set (offending_stages (set_input_stage parsed))"
    using offending_stages_before_input [of OBJECT "set_input_stage parsed"] range [of parsed]
    by (auto simp: stage_ge_def)
  have no_exe: "EXECUTABLE \<notin> set (offending_stages (set_input_stage parsed))"
    using offending_stages_before_input [of EXECUTABLE "set_input_stage parsed"] range [of parsed]
    by (auto simp: stage_ge_def)
  have v_obj: "validate_args (set_input_stage parsed) \<noteq> Inl (cannot_produce OBJECT)"
    using no_obj
    by (cases "offending_stages (set_input_stage parsed)")
       (auto simp: validate_args_offending dest: cannot_produce_inj)
  have v_exe: "validate_args (set_input_stage parsed) \<noteq> Inl (cannot_produce EXECUTABLE)"
    using no_exe
    by (cases "offending_stages (set_input_stage parsed)")
       (auto simp: validate_args_offending dest: cannot_produce_inj)
  have only: "store_hugr parsed = None \<and> store_hugr_mlir parsed = None \<and>
      store_llvm_mlir parsed = None \<and> store_llvm parsed = None \<longrightarrow>
      validate_args (set_input_stage parsed) = Inr ()"
    using range [of parsed]
    by (auto simp: validate_args_def store_requires_def stage_ge_def)
  show ?thesis
    using range [of args] no_obj no_exe v_obj v_exe only
    by (auto simp: get_input_state_def)
qed

theorem get_input_state_never_object_witness:
  "get_input_state no_arguments = GUPPY \<and>
   get_input_state (no_arguments\<lparr>llvm := True\<rparr>) = LLVM \<and>
   validate_args (set_input_stage
      (no_arguments\<lparr>llvm := True, store_obj := Some (Path ''out.o''),
                     store_bin := Some (Path ''a.out'')\<rparr>)) = Inr ()"
  using get_input_state_never_object
          [of no_arguments
              "no_arguments\<lparr>llvm := True, store_obj := Some (Path ''out.o''),
                             store_bin := Some (Path ''a.out'')\<rparr>"]
  by (simp add: no_arguments_def get_input_state_def)

text \<open>
  C8. Once the arguments are parsed and the \<open>StageData\<close> is built, the exit code of the
  process is 0 when \<open>run_guppy_from_stage\<close> reports success and 1 when it reports
  failure.
\<close>

theorem main_exit_code:
  assumes "parse_args (from_file r) parsed = (Inr args, logs)"
    and "fst (load_stage_data r args) = Inr stage_data"
  shows "exit_code (fst (main r parsed)) = (if run_pipeline r args stage_data then 0 else 1)"
proof -
  obtain built where l: "load_stage_data r args = (Inr stage_data, built)"
    using assms(2) by (cases "load_stage_data r args") simp
  show ?thesis
    by (simp add: main_def Let_def assms(1) l)
qed

theorem main_exit_code_witness:
  "exit_code (fst (main \<lparr>from_file = (\<lambda>p st. None), from_path = (\<lambda>st p e. Inr ()),
                         from_stdin = (\<lambda>st e. Inr ()),
                         run_guppy_from_stage = (\<lambda>sd h hm lm l ob b n m. True)\<rparr> no_arguments)) = 0 \<and>
   exit_code (fst (main \<lparr>from_file = (\<lambda>p st. None), from_path = (\<lambda>st p e. Inr ()),
                         from_stdin = (\<lambda>st e. Inr ()),
                         run_guppy_from_stage = (\<lambda>sd h hm lm l ob b n m. False)\<rparr> no_arguments)) = 1"
proof -
  let ?ok = "\<lparr>from_file = (\<lambda>p st. None), from_path = (\<lambda>st p e. Inr ()),
               from_stdin = (\<lambda>st e. Inr ()),
               run_guppy_from_stage = (\<lambda>sd h hm lm l ob b n m. True)\<rparr> :: unit runner"
  let ?ko = "\<lparr>from_file = (\<lambda>p st. None), from_path = (\<lambda>st p e. Inr ()),
               from_stdin = (\<lambda>st e. Inr ()),
               run_guppy_from_stage = (\<lambda>sd h hm lm l ob b n m. False)\<rparr> :: unit runner"
  have off: "offending_stages (set_input_stage no_arguments) = []"
    by (simp add: offending_stages_def store_requires_def no_arguments_def)
  obtain args logs where p: "parse_args (\<lambda>p st. None) no_arguments = (Inr args, logs)"
    by (simp add: parse_args_eq off)
  have l1: "fst (load_stage_data ?ok args) = Inr ()"
    by (simp add: load_stage_data_def split: option.splits)
  have l2: "fst (load_stage_data ?ko args) = Inr ()"
    by (simp add: load_stage_data_def split: option.splits)
  have p1: "parse_args (from_file ?ok) no_arguments = (Inr args, logs)" using p by simp
  have p2: "parse_args (from_file ?ko) no_arguments = (Inr args, logs)" using p by simp
  from main_exit_code [OF p1 l1] main_exit_code [OF p2 l2] show ?thesis
    by (simp add: run_pipeline_def)
qed

end
